theory Spec2Isabelle
  imports Main
begin

unbundle bit_operations_syntax

section \<open>Constants of the platform headers\<close>

text \<open>
  The media key identifiers of \<^verbatim>\<open>hidsystem/ev_keymap.h\<close>, as the module
  \<^verbatim>\<open>lib/pynput/keyboard/_darwin.py\<close> lists them.
\<close>

definition NX_KEYTYPE_SOUND_UP :: int where "NX_KEYTYPE_SOUND_UP = 0"
definition NX_KEYTYPE_SOUND_DOWN :: int where "NX_KEYTYPE_SOUND_DOWN = 1"
definition NX_KEYTYPE_BRIGHTNESS_UP :: int where "NX_KEYTYPE_BRIGHTNESS_UP = 2"
definition NX_KEYTYPE_BRIGHTNESS_DOWN :: int where "NX_KEYTYPE_BRIGHTNESS_DOWN = 3"
definition NX_KEYTYPE_CAPS_LOCK :: int where "NX_KEYTYPE_CAPS_LOCK = 4"
definition NX_KEYTYPE_HELP :: int where "NX_KEYTYPE_HELP = 5"
definition NX_POWER_KEY :: int where "NX_POWER_KEY = 6"
definition NX_KEYTYPE_MUTE :: int where "NX_KEYTYPE_MUTE = 7"
definition NX_UP_ARROW_KEY :: int where "NX_UP_ARROW_KEY = 8"
definition NX_DOWN_ARROW_KEY :: int where "NX_DOWN_ARROW_KEY = 9"
definition NX_KEYTYPE_NUM_LOCK :: int where "NX_KEYTYPE_NUM_LOCK = 10"
definition NX_KEYTYPE_CONTRAST_UP :: int where "NX_KEYTYPE_CONTRAST_UP = 11"
definition NX_KEYTYPE_CONTRAST_DOWN :: int where "NX_KEYTYPE_CONTRAST_DOWN = 12"
definition NX_KEYTYPE_LAUNCH_PANEL :: int where "NX_KEYTYPE_LAUNCH_PANEL = 13"
definition NX_KEYTYPE_EJECT :: int where "NX_KEYTYPE_EJECT = 14"
definition NX_KEYTYPE_VIDMIRROR :: int where "NX_KEYTYPE_VIDMIRROR = 15"
definition NX_KEYTYPE_PLAY :: int where "NX_KEYTYPE_PLAY = 16"
definition NX_KEYTYPE_NEXT :: int where "NX_KEYTYPE_NEXT = 17"
definition NX_KEYTYPE_PREVIOUS :: int where "NX_KEYTYPE_PREVIOUS = 18"
definition NX_KEYTYPE_FAST :: int where "NX_KEYTYPE_FAST = 19"
definition NX_KEYTYPE_REWIND :: int where "NX_KEYTYPE_REWIND = 20"
definition NX_KEYTYPE_ILLUMINATION_UP :: int where "NX_KEYTYPE_ILLUMINATION_UP = 21"
definition NX_KEYTYPE_ILLUMINATION_DOWN :: int where "NX_KEYTYPE_ILLUMINATION_DOWN = 22"
definition NX_KEYTYPE_ILLUMINATION_TOGGLE :: int where "NX_KEYTYPE_ILLUMINATION_TOGGLE = 23"

lemmas NX_defs =
  NX_KEYTYPE_SOUND_UP_def NX_KEYTYPE_SOUND_DOWN_def NX_KEYTYPE_BRIGHTNESS_UP_def
  NX_KEYTYPE_BRIGHTNESS_DOWN_def NX_POWER_KEY_def NX_KEYTYPE_MUTE_def
  NX_KEYTYPE_NUM_LOCK_def NX_KEYTYPE_CONTRAST_UP_def NX_KEYTYPE_CONTRAST_DOWN_def
  NX_KEYTYPE_LAUNCH_PANEL_def NX_KEYTYPE_EJECT_def NX_KEYTYPE_VIDMIRROR_def
  NX_KEYTYPE_PLAY_def NX_KEYTYPE_NEXT_def NX_KEYTYPE_PREVIOUS_def NX_KEYTYPE_FAST_def
  NX_KEYTYPE_REWIND_def NX_KEYTYPE_ILLUMINATION_UP_def NX_KEYTYPE_ILLUMINATION_DOWN_def
  NX_KEYTYPE_ILLUMINATION_TOGGLE_def

definition kSystemDefinedEventMediaKeysSubtype :: int where
  "kSystemDefinedEventMediaKeysSubtype = 8"

text \<open>
  The constants of the Quartz framework that the module names. Quartz is not part of the
  repository; the values are those of the public headers \<^verbatim>\<open>CGEventTypes.h\<close> and
  \<^verbatim>\<open>NSEvent.h\<close>.
\<close>

definition kCGEventKeyDown :: int where "kCGEventKeyDown = 10"
definition kCGEventKeyUp :: int where "kCGEventKeyUp = 11"
definition kCGEventFlagsChanged :: int where "kCGEventFlagsChanged = 12"
definition NSSystemDefined :: int where "NSSystemDefined = 14"

definition kCGEventFlagMaskShift :: int where "kCGEventFlagMaskShift = 0x20000"
definition kCGEventFlagMaskControl :: int where "kCGEventFlagMaskControl = 0x40000"
definition kCGEventFlagMaskAlternate :: int where "kCGEventFlagMaskAlternate = 0x80000"
definition kCGEventFlagMaskCommand :: int where "kCGEventFlagMaskCommand = 0x100000"

lemmas Quartz_defs =
  kCGEventKeyDown_def kCGEventKeyUp_def kCGEventFlagsChanged_def NSSystemDefined_def
  kCGEventFlagMaskShift_def kCGEventFlagMaskControl_def kCGEventFlagMaskAlternate_def
  kCGEventFlagMaskCommand_def

section \<open>Key codes\<close>

text \<open>
  Modelled from the spec: the base class \<^verbatim>\<open>_base.KeyCode\<close> is not among the
  sources. The specification gives a key code three optional attributes (the virtual key,
  the character, the media flag), equality by value on all of them, and the constructors
  \<^verbatim>\<open>from_vk\<close> (extra attributes attached verbatim) and \<^verbatim>\<open>from_char\<close>.
  A Python attribute holding \<^verbatim>\<open>None\<close> is the value \<open>None\<close> here. The class
  \<^verbatim>\<open>KeyCode\<close> of the module adds the attribute \<^verbatim>\<open>_is_media\<close>, whose class-level
  default is \<^verbatim>\<open>None\<close>, and the constructor \<^verbatim>\<open>_from_media\<close>.
\<close>

record KeyCode =
  vk :: "int option"
  char :: "string option"
  is_media :: "bool option"

definition from_vk :: "int \<Rightarrow> string option \<Rightarrow> bool option \<Rightarrow> KeyCode" where
  "from_vk v c m = \<lparr>vk = Some v, char = c, is_media = m\<rparr>"

definition from_char :: "string \<Rightarrow> int option \<Rightarrow> KeyCode" where
  "from_char c v = \<lparr>vk = v, char = Some c, is_media = None\<rparr>"

definition from_media :: "int \<Rightarrow> KeyCode" where
  "from_media v = from_vk v None (Some True)"

section \<open>The enumeration of symbolic keys\<close>

text \<open>
  The body of \<^verbatim>\<open>class Key(enum.Enum)\<close>: the names it binds and the value bound to
  each, in the order of the source.
\<close>

definition Key_body :: "(string \<times> KeyCode) list" where
  "Key_body =
    [(''alt'', from_vk 0x3A None None),
     (''alt_l'', from_vk 0x3A None None),
     (''alt_r'', from_vk 0x3D None None),
     (''alt_gr'', from_vk 0x3D None None),
     (''backspace'', from_vk 0x33 None None),
     (''caps_lock'', from_vk 0x39 None None),
     (''cmd'', from_vk 0x37 None None),
     (''cmd_l'', from_vk 0x37 None None),
     (''cmd_r'', from_vk 0x36 None None),
     (''ctrl'', from_vk 0x3B None None),
     (''ctrl_l'', from_vk 0x3B None None),
     (''ctrl_r'', from_vk 0x3E None None),
     (''delete'', from_vk 0x75 None None),
     (''down'', from_vk 0x7D None None),
     (''end'', from_vk 0x77 None None),
     (''enter'', from_vk 0x24 None None),
     (''esc'', from_vk 0x35 None None),
     (''f1'', from_vk 0x7A None None),
     (''f2'', from_vk 0x78 None None),
     (''f3'', from_vk 0x63 None None),
     (''f4'', from_vk 0x76 None None),
     (''f5'', from_vk 0x60 None None),
     (''f6'', from_vk 0x61 None None),
     (''f7'', from_vk 0x62 None None),
     (''f8'', from_vk 0x64 None None),
     (''f9'', from_vk 0x65 None None),
     (''f10'', from_vk 0x6D None None),
     (''f11'', from_vk 0x67 None None),
     (''f12'', from_vk 0x6F None None),
     (''f13'', from_vk 0x69 None None),
     (''f14'', from_vk 0x6B None None),
     (''f15'', from_vk 0x71 None None),
     (''f16'', from_vk 0x6A None None),
     (''f17'', from_vk 0x40 None None),
     (''f18'', from_vk 0x4F None None),
     (''f19'', from_vk 0x50 None None),
     (''f20'', from_vk 0x5A None None),
     (''home'', from_vk 0x73 None None),
     (''left'', from_vk 0x7B None None),
     (''page_down'', from_vk 0x79 None None),
     (''page_up'', from_vk 0x74 None None),
     (''right'', from_vk 0x7C None None),
     (''shift'', from_vk 0x38 None None),
     (''shift_l'', from_vk 0x38 None None),
     (''shift_r'', from_vk 0x3C None None),
     (''space'', from_vk 0x31 (Some '' '') None),
     (''tab'', from_vk 0x30 None None),
     (''up'', from_vk 0x7E None None),
     (''insert'', from_vk 0x72 None None),
     (''one'', from_vk 0x12 (Some ''1'') None),
     (''two'', from_vk 0x13 (Some ''2'') None),
     (''three'', from_vk 0x14 (Some ''3'') None),
     (''four'', from_vk 0x15 (Some ''4'') None),
     (''five'', from_vk 0x17 (Some ''5'') None),
     (''six'', from_vk 0x16 (Some ''6'') None),
     (''seven'', from_vk 0x1A (Some ''7'') None),
     (''eight'', from_vk 0x1C (Some ''8'') None),
     (''nine'', from_vk 0x19 (Some ''9'') None),
     (''kp_zero'', from_vk 0x52 None None),
     (''kp_one'', from_vk 0x53 None None),
     (''kp_two'', from_vk 0x54 None None),
     (''kp_three'', from_vk 0x55 None None),
     (''kp_four'', from_vk 0x56 None None),
     (''kp_five'', from_vk 0x57 None None),
     (''kp_six'', from_vk 0x58 None None),
     (''kp_seven'', from_vk 0x59 None None),
     (''kp_eight'', from_vk 0x5B None None),
     (''kp_nine'', from_vk 0x5C None None),
     (''kp_equals'', from_vk 0x51 None None),
     (''kp_divide'', from_vk 0x4B None None),
     (''kp_multiply'', from_vk 0x43 None None),
     (''kp_minus'', from_vk 0x4E None None),
     (''kp_add'', from_vk 0x45 None None),
     (''kp_enter'', from_vk 0x4C None None),
     (''kp_decimal'', from_vk 0x41 None None),
     (''media_volume_up'', from_media NX_KEYTYPE_SOUND_UP),
     (''media_volume_down'', from_media NX_KEYTYPE_SOUND_DOWN),
     (''brightness_up'', from_media NX_KEYTYPE_BRIGHTNESS_UP),
     (''brightness_down'', from_media NX_KEYTYPE_BRIGHTNESS_DOWN),
     (''power'', from_media NX_POWER_KEY),
     (''media_volume_mute'', from_media NX_KEYTYPE_MUTE),
     (''num_lock'', from_media NX_KEYTYPE_NUM_LOCK),
     (''contrast_up'', from_media NX_KEYTYPE_CONTRAST_UP),
     (''contrast_down'', from_media NX_KEYTYPE_CONTRAST_DOWN),
     (''launch_panel'', from_media NX_KEYTYPE_LAUNCH_PANEL),
     (''media_eject'', from_media NX_KEYTYPE_EJECT),
     (''vidmirror'', from_media NX_KEYTYPE_VIDMIRROR),
     (''media_play_pause'', from_media NX_KEYTYPE_PLAY),
     (''media_next'', from_media NX_KEYTYPE_NEXT),
     (''media_previous'', from_media NX_KEYTYPE_PREVIOUS),
     (''media_fast'', from_media NX_KEYTYPE_FAST),
     (''media_rewind'', from_media NX_KEYTYPE_REWIND),
     (''illumination_up'', from_media NX_KEYTYPE_ILLUMINATION_UP),
     (''illumination_down'', from_media NX_KEYTYPE_ILLUMINATION_DOWN),
     (''illumination_toggle'', from_media NX_KEYTYPE_ILLUMINATION_TOGGLE)]"

text \<open>
  A member of an enumeration has a name and a value. Python's \<^verbatim>\<open>enum.Enum\<close> creates
  the members while it reads the class body from top to bottom: a name whose value equals
  the value of a member created before it creates no member, the name becomes an alias of
  that earlier member. Attribute access (\<^verbatim>\<open>Key.alt_l\<close>) goes through the map from
  names to members, which holds the aliases too; iteration (\<^verbatim>\<open>for key in Key\<close>) runs
  over the members in the order of their creation, and so never over an alias.
\<close>

record Key_member =
  name :: string
  value_of :: KeyCode

fun find_member :: "KeyCode \<Rightarrow> Key_member list \<Rightarrow> Key_member option" where
  "find_member v [] = None"
| "find_member v (m # ms) = (if value_of m = v then Some m else find_member v ms)"

fun enum_create ::
  "(string \<times> KeyCode) list \<Rightarrow> Key_member list \<times> (string \<times> Key_member) list
     \<Rightarrow> Key_member list \<times> (string \<times> Key_member) list" where
  "enum_create [] st = st"
| "enum_create ((n, v) # body) (members, member_map) =
     (case find_member v members of
        Some m \<Rightarrow> enum_create body (members, member_map @ [(n, m)])
      | None \<Rightarrow>
          enum_create body
            (members @ [\<lparr>name = n, value_of = v\<rparr>],
             member_map @ [(n, \<lparr>name = n, value_of = v\<rparr>)]))"

definition Key_members :: "Key_member list" where
  "Key_members = fst (enum_create Key_body ([], []))"

definition Key_member_map :: "(string \<times> Key_member) list" where
  "Key_member_map = snd (enum_create Key_body ([], []))"

text \<open>\<open>Key n\<close> is the attribute access \<^verbatim>\<open>Key.n\<close>, for a name of the class body.\<close>

definition Key :: "string \<Rightarrow> Key_member" where
  "Key n = the (map_of Key_member_map n)"

text \<open>
  What the listener hands to a callback: a member of the enumeration, a key code built
  for the event, or \<^verbatim>\<open>None\<close>.
\<close>

datatype key = Named Key_member | Generic KeyCode

datatype error = IndexError | TypeError

section \<open>Native events\<close>

text \<open>
  A Quartz event, as far as the module reads or writes it: its type, the keycode field,
  the flag word, the Unicode string, and the fields of the system-defined event. Quartz
  calls that build an event take the argument \<open>os\<close>, the event as the system allocates
  it: the call sets the fields it is given and leaves the others as they are in \<open>os\<close>.
\<close>

record CGEvent =
  CGEventGetType :: int
  keycode :: int
  CGEventGetFlags :: int
  unicode_string :: string
  ns_location :: "int \<times> int"
  ns_timestamp :: int
  ns_windowNumber :: int
  ns_context :: int
  ns_subtype :: int
  ns_data1 :: int
  ns_data2 :: int

definition CGEventCreateKeyboardEvent :: "CGEvent \<Rightarrow> int \<Rightarrow> bool \<Rightarrow> CGEvent" where
  "CGEventCreateKeyboardEvent os v is_pressed =
     os\<lparr>CGEventGetType := (if is_pressed then kCGEventKeyDown else kCGEventKeyUp),
        keycode := v\<rparr>"

definition otherEventWithType ::
  "CGEvent \<Rightarrow> int \<Rightarrow> int \<times> int \<Rightarrow> int \<Rightarrow> int \<Rightarrow> int \<Rightarrow> int \<Rightarrow> int \<Rightarrow> int \<Rightarrow> int
     \<Rightarrow> CGEvent" where
  "otherEventWithType os ty loc mflags ts win cx sub d1 d2 =
     os\<lparr>CGEventGetType := ty, CGEventGetFlags := mflags, ns_location := loc,
        ns_timestamp := ts, ns_windowNumber := win, ns_context := cx, ns_subtype := sub,
        ns_data1 := d1, ns_data2 := d2\<rparr>"

definition CGEventSetFlags :: "CGEvent \<Rightarrow> int \<Rightarrow> CGEvent" where
  "CGEventSetFlags e f = e\<lparr>CGEventGetFlags := f\<rparr>"

definition CGEventKeyboardSetUnicodeString :: "CGEvent \<Rightarrow> nat \<Rightarrow> string \<Rightarrow> CGEvent" where
  "CGEventKeyboardSetUnicodeString e n s = e\<lparr>unicode_string := take n s\<rparr>"

definition CGEventKeyboardGetUnicodeString :: "CGEvent \<Rightarrow> nat \<times> string" where
  "CGEventKeyboardGetUnicodeString e = (length (unicode_string e), unicode_string e)"

section \<open>Synthesis: \<^verbatim>\<open>KeyCode._event\<close>\<close>

text \<open>
  The layout mapping is a dictionary from characters to key codes; \<^verbatim>\<open>mapping.get\<close>
  of a character it does not hold, and of \<^verbatim>\<open>None\<close>, is \<^verbatim>\<open>None\<close>.
\<close>

definition mapping_get :: "(string \<rightharpoonup> int) \<Rightarrow> string option \<Rightarrow> int option" where
  "mapping_get mapping c = (case c of None \<Rightarrow> None | Some s \<Rightarrow> mapping s)"

text \<open>
  \<^verbatim>\<open>self.vk or mapping.get(self.char)\<close>: Python's \<^verbatim>\<open>or\<close> yields its left operand
  when that is true, and both \<^verbatim>\<open>None\<close> and \<^verbatim>\<open>0\<close> are false.
\<close>

definition vk_or_mapping :: "KeyCode \<Rightarrow> (string \<rightharpoonup> int) \<Rightarrow> int option" where
  "vk_or_mapping self mapping =
     (case vk self of
        None \<Rightarrow> mapping_get mapping (char self)
      | Some v \<Rightarrow> if v \<noteq> 0 then Some v else mapping_get mapping (char self))"

definition modifier_flags :: "Key_member set \<Rightarrow> int" where
  "modifier_flags modifiers =
     0 OR (if Key ''alt'' \<in> modifiers then kCGEventFlagMaskAlternate else 0)
       OR (if Key ''cmd'' \<in> modifiers then kCGEventFlagMaskCommand else 0)
       OR (if Key ''ctrl'' \<in> modifiers then kCGEventFlagMaskControl else 0)
       OR (if Key ''shift'' \<in> modifiers then kCGEventFlagMaskShift else 0)"

text \<open>
  The method \<^verbatim>\<open>_event\<close>. In the media branch \<^verbatim>\<open>self.vk << 16\<close> raises
  \<^verbatim>\<open>TypeError\<close> when the virtual key is \<^verbatim>\<open>None\<close>.
\<close>

definition KeyCode_event ::
  "CGEvent \<Rightarrow> KeyCode \<Rightarrow> Key_member set \<Rightarrow> (string \<rightharpoonup> int) \<Rightarrow> bool \<Rightarrow> error + CGEvent" where
  "KeyCode_event os self modifiers mapping is_pressed =
     (let v = vk_or_mapping self mapping in
      case (if is_media self = Some True
            then (case vk self of
                    None \<Rightarrow> Inl TypeError
                  | Some sv \<Rightarrow>
                      Inr (otherEventWithType os NSSystemDefined (0, 0)
                             (if is_pressed then 0xa00 else 0xb00) 0 0 0 8
                             (push_bit 16 sv OR push_bit 8 (if is_pressed then 0xa else 0xb))
                             (- 1)))
            else Inr (CGEventCreateKeyboardEvent os (case v of None \<Rightarrow> 0 | Some x \<Rightarrow> x)
                        is_pressed)) of
        Inl e \<Rightarrow> Inl e
      | Inr result \<Rightarrow>
          (let result = CGEventSetFlags result (modifier_flags modifiers) in
           Inr (case (v, char self) of
                  (None, Some c) \<Rightarrow> CGEventKeyboardSetUnicodeString result (length c) c
                | _ \<Rightarrow> result)))"

section \<open>Interpretation: the listener\<close>

text \<open>
  The dictionary comprehension \<^verbatim>\<open>_SPECIAL_KEYS\<close>: one entry for each member the
  iteration yields, a later entry replacing an earlier one with the same pair.
\<close>

definition SPECIAL_KEYS :: "int option \<times> bool option \<rightharpoonup> Key_member" where
  "SPECIAL_KEYS =
     fold (\<lambda>key d. d((vk (value_of key), is_media (value_of key)) \<mapsto> key))
       Key_members Map.empty"

definition MODIFIER_FLAGS :: "Key_member \<rightharpoonup> int" where
  "MODIFIER_FLAGS =
     [Key ''alt'' \<mapsto> kCGEventFlagMaskAlternate,
      Key ''alt_l'' \<mapsto> kCGEventFlagMaskAlternate,
      Key ''alt_r'' \<mapsto> kCGEventFlagMaskAlternate,
      Key ''cmd'' \<mapsto> kCGEventFlagMaskCommand,
      Key ''cmd_l'' \<mapsto> kCGEventFlagMaskCommand,
      Key ''cmd_r'' \<mapsto> kCGEventFlagMaskCommand,
      Key ''ctrl'' \<mapsto> kCGEventFlagMaskControl,
      Key ''ctrl_l'' \<mapsto> kCGEventFlagMaskControl,
      Key ''ctrl_r'' \<mapsto> kCGEventFlagMaskControl,
      Key ''shift'' \<mapsto> kCGEventFlagMaskShift,
      Key ''shift_l'' \<mapsto> kCGEventFlagMaskShift,
      Key ''shift_r'' \<mapsto> kCGEventFlagMaskShift]"

text \<open>
  \<^verbatim>\<open>_MODIFIER_FLAGS.get(key, 0)\<close>, for the key the callback would receive: a key code
  and \<^verbatim>\<open>None\<close> are no keys of the dictionary.
\<close>

definition MODIFIER_FLAGS_get :: "key option \<Rightarrow> int \<Rightarrow> int" where
  "MODIFIER_FLAGS_get k d =
     (case k of
        Some (Named m) \<Rightarrow> (case MODIFIER_FLAGS m of Some f \<Rightarrow> f | None \<Rightarrow> d)
      | _ \<Rightarrow> d)"

text \<open>
  \<^verbatim>\<open>str.isprintable\<close> on the characters a \<open>string\<close> can hold (U+0000 to U+00FF):
  not printable are the control characters, the no-break space and the soft hyphen.
  The empty string is printable.
\<close>

definition char_isprintable :: "char \<Rightarrow> bool" where
  "char_isprintable c =
     ((0x20 \<le> (of_char c :: nat) \<and> (of_char c :: nat) < 0x7F)
      \<or> (0xA1 \<le> (of_char c :: nat) \<and> (of_char c :: nat) \<noteq> 0xAD))"

definition isprintable :: "string \<Rightarrow> bool" where
  "isprintable s = list_all char_isprintable s"

text \<open>
  The method \<^verbatim>\<open>_event_to_key\<close>. The table \<^verbatim>\<open>SYMBOLS\<close> of
  \<^verbatim>\<open>pynput._util.darwin_vks\<close> is not among the sources and is an argument. The
  docstring announces \<^verbatim>\<open>IndexError\<close>; the result type has room for it.
\<close>

definition event_to_key :: "(int \<rightharpoonup> string) \<Rightarrow> CGEvent \<Rightarrow> error + key" where
  "event_to_key SYMBOLS event =
     (let v = keycode event;
          event_type = CGEventGetType event;
          media = (if event_type = NSSystemDefined then Some True else None)
      in case SPECIAL_KEYS (Some v, media) of
           Some m \<Rightarrow> Inr (Named m)
         | None \<Rightarrow>
             (case CGEventKeyboardGetUnicodeString event of
                (len, chars) \<Rightarrow>
                  (let printable = isprintable chars in
                   if \<not> printable \<and> SYMBOLS v \<noteq> None
                        \<and> CGEventGetFlags event AND kCGEventFlagMaskControl \<noteq> 0
                   then Inr (Generic (from_char (the (SYMBOLS v)) (Some v)))
                   else if len > 0 then Inr (Generic (from_char chars (Some v)))
                   else Inr (Generic (from_vk v None None)))))"

text \<open>
  The method \<^verbatim>\<open>_handle\<close>, in its two \<^verbatim>\<open>try\<close> statements. The first binds
  \<^verbatim>\<open>key\<close>, to \<^verbatim>\<open>None\<close> when \<^verbatim>\<open>_event_to_key\<close> raises
  \<^verbatim>\<open>IndexError\<close>; any other exception leaves the method. The second,
  \<open>handle_callbacks\<close>, makes the calls of \<^verbatim>\<open>on_press\<close> and
  \<^verbatim>\<open>on_release\<close> for that key: they are returned as a list, in the order they
  are made. Its \<^verbatim>\<open>finally\<close> clause stores the flag word of the
  event in the listener.
\<close>

datatype callback = on_press "key option" | on_release "key option"

record Listener =
  flags_snapshot :: int

definition handle_callbacks :: "int \<Rightarrow> CGEvent \<Rightarrow> key option \<Rightarrow> callback list" where
  "handle_callbacks event_type event k =
     (if event_type = kCGEventKeyDown then [on_press k]
      else if event_type = kCGEventKeyUp then [on_release k]
      else if k = Some (Named (Key ''caps_lock'')) then [on_press k, on_release k]
      else if event_type = NSSystemDefined then
        (if ns_subtype event = kSystemDefinedEventMediaKeysSubtype
         then (case SPECIAL_KEYS
                      (Some (drop_bit 16 (ns_data1 event AND 0xffff0000)), Some True) of
                 None \<Rightarrow> []
               | Some m \<Rightarrow>
                   (let fl = ns_data1 event AND 0x0000ffff;
                        is_press = (drop_bit 8 (fl AND 0xff00) = 0x0a)
                    in if is_press then [on_press (Some (Named m))]
                       else [on_release (Some (Named m))]))
         else [])
      else
        (let fl = CGEventGetFlags event;
             is_press = fl AND MODIFIER_FLAGS_get k 0
         in if is_press \<noteq> 0 then [on_press k] else [on_release k]))"

definition handle ::
  "(int \<rightharpoonup> string) \<Rightarrow> Listener \<Rightarrow> int \<Rightarrow> CGEvent
     \<Rightarrow> error + callback list \<times> Listener" where
  "handle SYMBOLS self event_type event =
     (case (case event_to_key SYMBOLS event of
              Inl e \<Rightarrow> (if e = IndexError then Inr None else Inl e)
            | Inr x \<Rightarrow> Inr (Some x)) of
        Inl e \<Rightarrow> Inl e
      | Inr k \<Rightarrow>
          Inr (handle_callbacks event_type event k,
               self\<lparr>flags_snapshot := CGEventGetFlags event\<rparr>))"

text \<open>An event with every field zero and no Unicode string, for concrete inputs.\<close>

definition blank_event :: CGEvent where
  "blank_event =
     \<lparr>CGEventGetType = 0, keycode = 0, CGEventGetFlags = 0, unicode_string = [],
      ns_location = (0, 0), ns_timestamp = 0, ns_windowNumber = 0, ns_context = 0,
      ns_subtype = 0, ns_data1 = 0, ns_data2 = 0\<rparr>"

text \<open>
  The decode table as the specification describes it: a fold over the names of the class
  body in the order of declaration, a later name replacing an earlier one at the same
  pair.
\<close>

definition decode_last_declared :: "int option \<times> bool option \<rightharpoonup> Key_member" where
  "decode_last_declared =
     fold (\<lambda>(n, v) d. d((vk v, is_media v) \<mapsto> Key n)) Key_body Map.empty"

text \<open>
  The names of the class body that create no member of their own, and the member each
  name of the body denotes.
\<close>

definition alias_names :: "string list" where
  "alias_names = [''alt_l'', ''alt_gr'', ''cmd_l'', ''ctrl_l'', ''shift_l'']"

definition canonical :: "string \<Rightarrow> string" where
  "canonical n =
     (if n = ''alt_l'' then ''alt'' else if n = ''alt_gr'' then ''alt_r''
      else if n = ''cmd_l'' then ''cmd'' else if n = ''ctrl_l'' then ''ctrl''
      else if n = ''shift_l'' then ''shift'' else n)"

section \<open>The members of the enumeration and the decode table, evaluated\<close>

lemma enum_create_Key:
  "enum_create Key_body ([], []) =
     (map (\<lambda>(n, v). \<lparr>name = n, value_of = v\<rparr>)
        (filter (\<lambda>(n, v). n \<notin> set alias_names) Key_body),
      map (\<lambda>(n, v). (n, \<lparr>name = canonical n, value_of = v\<rparr>)) Key_body)"
  by code_simp

lemma Key_simp:
  "Key n =
     the (map_of (map (\<lambda>(n, v). (n, \<lparr>name = canonical n, value_of = v\<rparr>)) Key_body) n)"
  by (simp add: Key_def Key_member_map_def enum_create_Key)

lemma Key_members_eq:
  "Key_members =
     map (\<lambda>(n, v). \<lparr>name = n, value_of = v\<rparr>)
       (filter (\<lambda>(n, v). n \<notin> set alias_names) Key_body)"
  by (simp add: Key_members_def enum_create_Key)

lemmas Key_eval = Key_simp Key_body_def canonical_def from_vk_def from_media_def NX_defs

lemma fold_upd_map_of:
  "fold (\<lambda>x d. d(f x \<mapsto> g x)) xs d0 = d0 ++ map_of (rev (map (\<lambda>x. (f x, g x)) xs))"
  by (induction xs arbitrary: d0) (auto simp: map_add_def fun_eq_iff split: option.splits)

lemma fold_upd_Some:
  "fold (\<lambda>x d. d(f x \<mapsto> x)) xs d0 p = Some m \<Longrightarrow> (m \<in> set xs \<and> f m = p) \<or> d0 p = Some m"
proof (induction xs arbitrary: d0)
  case Nil
  then show ?case by simp
next
  case (Cons a xs)
  from Cons.prems have "fold (\<lambda>x d. d(f x \<mapsto> x)) xs (d0(f a \<mapsto> a)) p = Some m"
    by (simp only: fold_simps)
  from Cons.IH [OF this] show ?case
    by (auto split: if_splits)
qed

lemma SPECIAL_KEYS_pair:
  "SPECIAL_KEYS p = Some m \<Longrightarrow> p = (vk (value_of m), is_media (value_of m))"
  unfolding SPECIAL_KEYS_def by (drule fold_upd_Some) auto

lemma SPECIAL_KEYS_eq:
  "SPECIAL_KEYS =
     map_of (rev (map (\<lambda>m. ((vk (value_of m), is_media (value_of m)), m)) Key_members))"
  unfolding SPECIAL_KEYS_def by (simp add: fold_upd_map_of)

lemmas SPECIAL_KEYS_eval = SPECIAL_KEYS_eq Key_members_eq alias_names_def Key_eval

lemma caps_lock_value: "value_of (Key ''caps_lock'') = from_vk 0x39 None None"
  by (simp add: Key_eval)

lemma caps_lock_not_media: "SPECIAL_KEYS (a, Some True) \<noteq> Some (Key ''caps_lock'')"
proof
  assume "SPECIAL_KEYS (a, Some True) = Some (Key ''caps_lock'')"
  from SPECIAL_KEYS_pair [OF this] show False
    by (simp add: caps_lock_value from_vk_def)
qed

section \<open>Facts about the interpreter\<close>

lemma event_to_key_media_not_caps_lock:
  "CGEventGetType event = NSSystemDefined \<Longrightarrow>
     event_to_key SYMBOLS event \<noteq> Inr (Named (Key ''caps_lock''))"
  by (auto simp: event_to_key_def Let_def CGEventKeyboardGetUnicodeString_def
        caps_lock_not_media split: option.splits)

lemma event_to_key_total: "\<exists>k. event_to_key SYMBOLS event = Inr k"
  by (auto simp: event_to_key_def Let_def CGEventKeyboardGetUnicodeString_def
        split: option.splits)

lemma handle_eq:
  "event_to_key SYMBOLS event = Inr k \<Longrightarrow>
     handle SYMBOLS self event_type event =
       Inr (handle_callbacks event_type event (Some k),
            self\<lparr>flags_snapshot := CGEventGetFlags event\<rparr>)"
  by (simp add: handle_def)

lemma and_mask16: "x AND (65535 :: int) = x mod 65536"
proof -
  have "(65535 :: int) = mask 16" by (simp add: mask_eq_exp_minus_1)
  then have "x AND 65535 = take_bit 16 x" by (simp only: take_bit_eq_mask)
  then show ?thesis by (simp add: take_bit_eq_mod)
qed

lemma and_mask8: "x AND (255 :: int) = x mod 256"
proof -
  have "(255 :: int) = mask 8" by (simp add: mask_eq_exp_minus_1)
  then have "x AND 255 = take_bit 8 x" by (simp only: take_bit_eq_mask)
  then show ?thesis by (simp add: take_bit_eq_mod)
qed

lemma and_high16: "drop_bit 16 (d AND 0xffff0000) = (d div 65536) mod (65536 :: int)"
proof -
  have "drop_bit 16 (d AND 0xffff0000) = drop_bit 16 d AND (65535 :: int)" by simp
  also have "\<dots> = drop_bit 16 d mod 65536" by (rule and_mask16)
  also have "\<dots> = (d div 65536) mod 65536" by (simp add: drop_bit_eq_div)
  finally show ?thesis .
qed

lemma and_status_byte:
  "drop_bit 8 ((d AND 0x0000ffff) AND 0xff00) = (d div 256) mod (256 :: int)"
proof -
  have "drop_bit 8 ((d AND 0x0000ffff) AND 0xff00) = drop_bit 8 d AND (255 :: int)" by simp
  also have "\<dots> = drop_bit 8 d mod 256" by (rule and_mask8)
  also have "\<dots> = (d div 256) mod 256" by (simp add: drop_bit_eq_div)
  finally show ?thesis .
qed

section \<open>Media keys: decoding\<close>

text \<open>
  Claim C4. A system-defined event of the media keys subtype is decoded from its field
  \<open>data1\<close> alone. The candidate scan code is bits 16 to 31 of \<open>data1\<close>, that is
  \<open>data1 div 65536 mod 65536\<close>; it is looked up in the decode table with the media flag
  set. When the pair is not in the table no callback is made and nothing is raised. When
  it is, the callback is a press exactly when bits 8 to 15 of \<open>data1\<close>, that is
  \<open>data1 div 256 mod 256\<close>, are \<open>0x0a\<close>, and a release for every other value.
\<close>

theorem media_key_decode:
  assumes "event_type = NSSystemDefined"
    and "CGEventGetType event = NSSystemDefined"
    and "ns_subtype event = kSystemDefinedEventMediaKeysSubtype"
  shows "handle SYMBOLS self event_type event =
           Inr ((case SPECIAL_KEYS (Some ((ns_data1 event div 65536) mod 65536), Some True) of
                   None \<Rightarrow> []
                 | Some m \<Rightarrow>
                     if (ns_data1 event div 256) mod 256 = 0x0a
                     then [on_press (Some (Named m))]
                     else [on_release (Some (Named m))]),
                self\<lparr>flags_snapshot := CGEventGetFlags event\<rparr>)"
proof -
  obtain k where k: "event_to_key SYMBOLS event = Inr k"
    using event_to_key_total by blast
  have nc: "k \<noteq> Named (Key ''caps_lock'')"
    using event_to_key_media_not_caps_lock [OF assms(2), of SYMBOLS] k by simp
  show ?thesis
    unfolding handle_eq [OF k] handle_callbacks_def Let_def and_high16 and_status_byte
    using assms(1,3) nc
    by (simp add: NSSystemDefined_def kCGEventKeyDown_def kCGEventKeyUp_def
          split: option.splits)
qed

lemma SPECIAL_KEYS_play: "SPECIAL_KEYS (Some 16, Some True) = Some (Key ''media_play_pause'')"
  by (simp add: SPECIAL_KEYS_eval)

lemma SPECIAL_KEYS_media_99: "SPECIAL_KEYS (Some 99, Some True) = None"
  by (simp add: SPECIAL_KEYS_eval)

theorem media_key_decode_witness:
  "handle Map.empty \<lparr>flags_snapshot = 0\<rparr> NSSystemDefined
     (blank_event\<lparr>CGEventGetType := NSSystemDefined, ns_subtype := 8, ns_data1 := 0x100a00\<rparr>)
     = Inr ([on_press (Some (Named (Key ''media_play_pause'')))], \<lparr>flags_snapshot = 0\<rparr>)
   \<and> handle Map.empty \<lparr>flags_snapshot = 0\<rparr> NSSystemDefined
     (blank_event\<lparr>CGEventGetType := NSSystemDefined, ns_subtype := 8, ns_data1 := 0x100b00\<rparr>)
     = Inr ([on_release (Some (Named (Key ''media_play_pause'')))], \<lparr>flags_snapshot = 0\<rparr>)
   \<and> handle Map.empty \<lparr>flags_snapshot = 0\<rparr> NSSystemDefined
     (blank_event\<lparr>CGEventGetType := NSSystemDefined, ns_subtype := 8, ns_data1 := 0x630a00\<rparr>)
     = Inr ([], \<lparr>flags_snapshot = 0\<rparr>)"
  using
    media_key_decode [of NSSystemDefined
      "blank_event\<lparr>CGEventGetType := NSSystemDefined, ns_subtype := 8, ns_data1 := 0x100a00\<rparr>"
      Map.empty "\<lparr>flags_snapshot = 0\<rparr>"]
    media_key_decode [of NSSystemDefined
      "blank_event\<lparr>CGEventGetType := NSSystemDefined, ns_subtype := 8, ns_data1 := 0x100b00\<rparr>"
      Map.empty "\<lparr>flags_snapshot = 0\<rparr>"]
    media_key_decode [of NSSystemDefined
      "blank_event\<lparr>CGEventGetType := NSSystemDefined, ns_subtype := 8, ns_data1 := 0x630a00\<rparr>"
      Map.empty "\<lparr>flags_snapshot = 0\<rparr>"]
  by (simp add: kSystemDefinedEventMediaKeysSubtype_def blank_event_def SPECIAL_KEYS_play
        SPECIAL_KEYS_media_99)

section \<open>Caps lock\<close>

text \<open>
  Claim C6. An event that is neither a key-down nor a key-up event and that decodes to
  the member \<^verbatim>\<open>Key.caps_lock\<close> makes exactly two callbacks: a press of caps lock,
  then a release of caps lock.
\<close>

theorem caps_lock_toggle:
  assumes "event_type \<noteq> kCGEventKeyDown"
    and "event_type \<noteq> kCGEventKeyUp"
    and "event_to_key SYMBOLS event = Inr (Named (Key ''caps_lock''))"
  shows "handle SYMBOLS self event_type event =
           Inr ([on_press (Some (Named (Key ''caps_lock''))),
                 on_release (Some (Named (Key ''caps_lock'')))],
                self\<lparr>flags_snapshot := CGEventGetFlags event\<rparr>)"
  using assms(1,2) by (simp add: handle_eq [OF assms(3)] handle_callbacks_def)

lemma SPECIAL_KEYS_caps_lock: "SPECIAL_KEYS (Some 0x39, None) = Some (Key ''caps_lock'')"
  by (simp add: SPECIAL_KEYS_eval)

lemma event_to_key_caps_lock:
  "event_to_key Map.empty (blank_event\<lparr>CGEventGetType := kCGEventFlagsChanged, keycode := 0x39\<rparr>)
     = Inr (Named (Key ''caps_lock''))"
  by (simp add: event_to_key_def Let_def Quartz_defs SPECIAL_KEYS_caps_lock)

theorem caps_lock_toggle_witness:
  "handle Map.empty \<lparr>flags_snapshot = 0\<rparr> kCGEventFlagsChanged
     (blank_event\<lparr>CGEventGetType := kCGEventFlagsChanged, keycode := 0x39\<rparr>) =
     Inr ([on_press (Some (Named (Key ''caps_lock''))),
           on_release (Some (Named (Key ''caps_lock'')))],
          \<lparr>flags_snapshot = 0\<rparr>)"
  using caps_lock_toggle [OF _ _ event_to_key_caps_lock, of kCGEventFlagsChanged
      "\<lparr>flags_snapshot = 0\<rparr>"]
  by (simp add: Quartz_defs blank_event_def)

section \<open>Media keys: synthesis\<close>

text \<open>
  Claim C7. For a key code whose media flag is set and whose virtual key is \<open>v\<close>,
  and for either polarity, synthesis builds a system-defined event of the media keys
  subtype whose field \<open>data1\<close> is \<open>(v << 16) | (code << 8)\<close>, with \<open>code\<close>
  \<open>0x0a\<close> for a press and \<open>0x0b\<close> for a release; the location is \<open>(0, 0)\<close>, the
  window number, the context and the timestamp are \<open>0\<close>, and \<open>data2\<close> is \<open>-1\<close>.
\<close>

theorem media_key_event:
  assumes "is_media self = Some True" and "vk self = Some v"
  shows "\<exists>e. KeyCode_event os self modifiers mapping is_pressed = Inr e
           \<and> CGEventGetType e = NSSystemDefined
           \<and> ns_subtype e = kSystemDefinedEventMediaKeysSubtype
           \<and> ns_data1 e = push_bit 16 v OR push_bit 8 (if is_pressed then 0x0a else 0x0b)
           \<and> ns_location e = (0, 0) \<and> ns_windowNumber e = 0 \<and> ns_context e = 0
           \<and> ns_timestamp e = 0 \<and> ns_data2 e = - 1"
  using assms
  by (simp add: KeyCode_event_def Let_def otherEventWithType_def CGEventSetFlags_def
        CGEventKeyboardSetUnicodeString_def kSystemDefinedEventMediaKeysSubtype_def
        split: option.splits)

theorem media_key_event_witness:
  "\<exists>e. KeyCode_event blank_event (from_media NX_KEYTYPE_PLAY) {} Map.empty True = Inr e
      \<and> CGEventGetType e = NSSystemDefined \<and> ns_subtype e = 8 \<and> ns_data1 e = 0x100a00
      \<and> ns_location e = (0, 0) \<and> ns_windowNumber e = 0 \<and> ns_context e = 0
      \<and> ns_timestamp e = 0 \<and> ns_data2 e = - 1"
  using media_key_event [of "from_media NX_KEYTYPE_PLAY" 16 blank_event "{}" Map.empty True]
  by (simp add: from_media_def from_vk_def NX_KEYTYPE_PLAY_def
        kSystemDefinedEventMediaKeysSubtype_def)

section \<open>The fallback branch for modifier events\<close>

text \<open>
  Claim C10. In the last branch of \<^verbatim>\<open>_handle\<close> (the event is no key-down, key-up or
  system-defined event and the key is not caps lock), a key with no entry in
  \<^verbatim>\<open>_MODIFIER_FLAGS\<close> is reported as a release whatever the flag word of the event is.
  This covers \<^verbatim>\<open>None\<close>, every key code built for the event, and every member that
  is no modifier.
\<close>

theorem fallback_without_modifier_flag_is_release:
  assumes "event_type \<noteq> kCGEventKeyDown"
    and "event_type \<noteq> kCGEventKeyUp"
    and "event_type \<noteq> NSSystemDefined"
    and "k \<noteq> Some (Named (Key ''caps_lock''))"
    and "\<forall>m. k = Some (Named m) \<longrightarrow> MODIFIER_FLAGS m = None"
  shows "handle_callbacks event_type event k = [on_release k]"
proof -
  have "MODIFIER_FLAGS_get k 0 = 0"
    using assms(5) by (auto simp: MODIFIER_FLAGS_get_def split: option.splits key.splits)
  then show ?thesis
    using assms(1-4) by (simp add: handle_callbacks_def Let_def)
qed

lemma f1_no_modifier: "MODIFIER_FLAGS (Key ''f1'') = None"
  by (simp add: MODIFIER_FLAGS_def Key_eval)

lemma f1_not_caps_lock: "Key ''f1'' \<noteq> Key ''caps_lock''"
  by (simp add: Key_eval)

theorem fallback_without_modifier_flag_is_release_witness:
  "handle_callbacks kCGEventFlagsChanged (blank_event\<lparr>CGEventGetFlags := 0x1E0000\<rparr>) None
     = [on_release None]
   \<and> handle_callbacks kCGEventFlagsChanged (blank_event\<lparr>CGEventGetFlags := 0x1E0000\<rparr>)
       (Some (Named (Key ''f1''))) = [on_release (Some (Named (Key ''f1'')))]
   \<and> handle_callbacks kCGEventFlagsChanged (blank_event\<lparr>CGEventGetFlags := 0x1E0000\<rparr>)
       (Some (Generic (from_vk 9999 None None)))
       = [on_release (Some (Generic (from_vk 9999 None None)))]"
  using
    fallback_without_modifier_flag_is_release [of kCGEventFlagsChanged None
      "blank_event\<lparr>CGEventGetFlags := 0x1E0000\<rparr>"]
    fallback_without_modifier_flag_is_release [of kCGEventFlagsChanged
      "Some (Named (Key ''f1''))" "blank_event\<lparr>CGEventGetFlags := 0x1E0000\<rparr>"]
    fallback_without_modifier_flag_is_release [of kCGEventFlagsChanged
      "Some (Generic (from_vk 9999 None None))" "blank_event\<lparr>CGEventGetFlags := 0x1E0000\<rparr>"]
  by (simp add: Quartz_defs f1_no_modifier f1_not_caps_lock)


end
